theory Spec2Isabelle
  imports Complex_Main
begin

section \<open>Data model\<close>

text \<open>
  The component \<^verbatim>\<open>WeatherMap\<close> of the weather application: its state, its event handlers
  and the asynchronous fetch cycle they start.

  A JavaScript number is modelled by its exact value, a rational: coordinates are finite
  and far below \<open>10^21\<close>, where \<^verbatim>\<open>toFixed\<close> prints plain decimal digits, and \<^verbatim>\<open>===\<close> on
  finite numbers is equality of values.
\<close>

record Location =
  lat :: rat
  lng :: rat
  name :: "string option"

record Readings =
  temp :: rat
  feels_like :: rat
  humidity :: rat
  pressure :: rat

record Condition =
  cond_id :: int
  cond_main :: string
  cond_description :: string
  cond_icon :: string

record Wind =
  speed :: rat
  deg :: rat

record WeatherData =
  w_main :: Readings
  w_weather :: "Condition list"
  w_wind :: Wind
  w_name :: string
  w_sys_country :: string

record ForecastEntry =
  dt :: int
  f_main :: Readings
  f_weather :: "Condition list"
  f_wind :: Wind
  dt_txt :: string

record ForecastData =
  f_list :: "ForecastEntry list"
  f_city_name :: string
  f_city_country :: string

record Alert =
  sender_name :: string
  event :: string
  start :: int
  alert_end :: int
  description :: string
  tags :: "string list"

text \<open>
  The body of the One Call response; only its \<^verbatim>\<open>alerts\<close> field is read, and the field may
  be missing (\<open>None\<close>).
\<close>

record OneCallData =
  alerts :: "Alert list option"

text \<open>
  One geocoding candidate, with \<^verbatim>\<open>lat\<close> and \<^verbatim>\<open>lon\<close> as \<^verbatim>\<open>Number.parseFloat\<close> reads them.
\<close>

record Candidate =
  c_lat :: rat
  c_lon :: rat
  display_name :: string

subsection \<open>Network calls\<close>

text \<open>
  Every call of \<^verbatim>\<open>fetch\<close> is appended to a log of requests. What comes back is a
  \<open>fetch_result\<close>: the promise rejects (no response at all), or it resolves to a response
  with its \<^verbatim>\<open>ok\<close> flag and the outcome of \<^verbatim>\<open>response.json()\<close> (\<open>None\<close> when
  parsing the body rejects).
\<close>

datatype request =
  CurrentWeather rat rat
  | Forecast rat rat
  | OneCall rat rat
  | Nominatim string

datatype 'a fetch_result = Rejected | Resolved bool "'a option"

text \<open>
  A fetch cycle is one run of \<^verbatim>\<open>fetchWeatherData\<close> past its guard. It is suspended at
  one of three \<^verbatim>\<open>await\<close>s; \<^verbatim>\<open>currentData\<close> is a local of the suspended call from the
  second one on.
\<close>

datatype phase = AwaitCurrent | AwaitForecast WeatherData | AwaitAlerts WeatherData

subsection \<open>The state of the component\<close>

text \<open>
  The \<^verbatim>\<open>useState\<close> cells and the three \<^verbatim>\<open>useRef\<close> cells, then what the runtime holds for
  the component: the log of requests, the suspended fetch cycles and the suspended
  searches. A suspended search keeps the value of \<^verbatim>\<open>loading\<close> its closure was created
  with.
\<close>

record WeatherMap =
  selectedLocation :: "Location option"
  searchedLocation :: "Location option"
  weatherData :: "WeatherData option"
  forecastData :: "ForecastData option"
  alertsData :: "Alert list option"
  loading :: bool
  error :: "string option"
  isSearching :: bool
  searchError :: "string option"
  lastUpdated :: "nat option"
  activeTab :: string
  dataFetchedRef :: bool
  locationKeyRef :: "string option"
  currentLocationRef :: "Location option"
  requests :: "request list"
  fetches :: "(Location \<times> phase) list"
  searches :: "bool list"

definition init :: WeatherMap where
  "init = \<lparr> selectedLocation = None, searchedLocation = None, weatherData = None,
      forecastData = None, alertsData = None, loading = False, error = None,
      isSearching = False, searchError = None, lastUpdated = None,
      activeTab = ''current'', dataFetchedRef = False, locationKeyRef = None,
      currentLocationRef = None, requests = [], fetches = [], searches = [] \<rparr>"

section \<open>The dedup key\<close>

text \<open>
  \<^verbatim>\<open>Number.prototype.toFixed(4)\<close> on a finite number below \<open>10^21\<close>: the sign, then the
  integer \<open>n\<close> nearest to \<open>|x| * 10^4\<close> (the larger one of two), printed with at least five
  digits and a point before the last four.
\<close>

fun digits :: "nat \<Rightarrow> string" where
  "digits n =
     (if n < 10 then [''0123456789'' ! n]
      else digits (n div 10) @ [''0123456789'' ! (n mod 10)])"

declare digits.simps [simp del]

definition toFixed4 :: "rat \<Rightarrow> string" where
  "toFixed4 x =
     (let s = (if x < 0 then ''-'' else '''');
          n = nat \<lfloor>\<bar>x\<bar> * 10000 + 1 / 2\<rfloor>;
          m = digits n;
          m = (if length m \<le> 4 then replicate (5 - length m) CHR ''0'' @ m else m);
          k = length m
      in s @ take (k - 4) m @ ''.'' @ drop (k - 4) m)"

definition locationKey :: "Location \<Rightarrow> string" where
  "locationKey location = toFixed4 (lat location) @ '','' @ toFixed4 (lng location)"

text \<open>
  The specification's words for the key: the coordinate rounded to 4 decimal places, a
  number. It is the multiple of \<open>10^-4\<close> whose digits \<^verbatim>\<open>toFixed(4)\<close> prints.
\<close>

definition rounded4 :: "rat \<Rightarrow> rat" where
  "rounded4 x = (if x < 0 then - 1 else 1) * of_nat (nat \<lfloor>\<bar>x\<bar> * 10000 + 1 / 2\<rfloor>) / 10000"

section \<open>The handlers\<close>

text \<open>
  \<^verbatim>\<open>fetchWeatherData\<close> reads \<^verbatim>\<open>loading\<close> from its closure: the value of the render that
  created the function, given here as the first argument. Up to its first \<^verbatim>\<open>await\<close> it
  runs synchronously: the guard, the two setters, the first request.
\<close>

definition fetchWeatherData :: "bool \<Rightarrow> Location \<Rightarrow> WeatherMap \<Rightarrow> WeatherMap" where
  "fetchWeatherData closure_loading location st =
     (if closure_loading then st
      else st\<lparr> loading := True, error := None,
               requests := requests st @ [CurrentWeather (lat location) (lng location)],
               fetches := fetches st @ [(location, AwaitCurrent)] \<rparr>)"

text \<open>The \<^verbatim>\<open>catch\<close> block followed by the \<^verbatim>\<open>finally\<close> block.\<close>

definition fetch_failed :: "WeatherMap \<Rightarrow> WeatherMap" where
  "fetch_failed st =
     st\<lparr> error := Some ''Failed to fetch weather data. Please try again later.'',
         loading := False \<rparr>"

text \<open>The continuation after the current-weather response.\<close>

definition after_current :: "Location \<Rightarrow> WeatherData fetch_result \<Rightarrow> WeatherMap \<Rightarrow> WeatherMap" where
  "after_current location r st =
     (case r of
        Rejected \<Rightarrow> fetch_failed st
      | Resolved ok body \<Rightarrow>
          if \<not> ok then fetch_failed st
          else (case body of
                  None \<Rightarrow> fetch_failed st
                | Some currentData \<Rightarrow>
                    st\<lparr> weatherData := Some currentData,
                        requests := requests st @ [Forecast (lat location) (lng location)],
                        fetches := fetches st @ [(location, AwaitForecast currentData)] \<rparr>))"

text \<open>The continuation after the forecast response.\<close>

definition after_forecast ::
  "Location \<Rightarrow> WeatherData \<Rightarrow> ForecastData fetch_result \<Rightarrow> WeatherMap \<Rightarrow> WeatherMap" where
  "after_forecast location currentData r st =
     (case r of
        Rejected \<Rightarrow> fetch_failed st
      | Resolved ok body \<Rightarrow>
          if \<not> ok then fetch_failed st
          else (case body of
                  None \<Rightarrow> fetch_failed st
                | Some forecast \<Rightarrow>
                    st\<lparr> forecastData := Some forecast,
                        requests := requests st @ [OneCall (lat location) (lng location)],
                        fetches := fetches st @ [(location, AwaitAlerts currentData)] \<rparr>))"

text \<open>
  The end of a cycle that did not throw: the timestamp, the functional update of the
  selected location, and the \<^verbatim>\<open>finally\<close> block.
\<close>

definition reconcile :: "Location \<Rightarrow> WeatherData \<Rightarrow> Location option \<Rightarrow> Location option" where
  "reconcile location currentData prevLocation =
     (case prevLocation of
        None \<Rightarrow> None
      | Some prev \<Rightarrow>
          if lat prev = lat location \<and> lng prev = lng location
          then Some (prev\<lparr> name := Some (w_name currentData) \<rparr>)
          else Some prev)"

definition fetch_done :: "Location \<Rightarrow> WeatherData \<Rightarrow> nat \<Rightarrow> WeatherMap \<Rightarrow> WeatherMap" where
  "fetch_done location currentData now st =
     st\<lparr> lastUpdated := Some now,
         selectedLocation := reconcile location currentData (selectedLocation st),
         loading := False \<rparr>"

text \<open>
  The continuation after the alerts response; \<^verbatim>\<open>oneCallData.alerts || null\<close> keeps an
  array, the empty one too, and turns a missing field into \<^verbatim>\<open>null\<close>.
\<close>

definition after_alerts ::
  "Location \<Rightarrow> WeatherData \<Rightarrow> OneCallData fetch_result \<Rightarrow> nat \<Rightarrow> WeatherMap \<Rightarrow> WeatherMap" where
  "after_alerts location currentData r now st =
     (case r of
        Rejected \<Rightarrow> fetch_failed st
      | Resolved ok body \<Rightarrow>
          if ok
          then (case body of
                  None \<Rightarrow> fetch_failed st
                | Some oneCallData \<Rightarrow>
                    fetch_done location currentData now
                      (st\<lparr> alertsData :=
                             (case alerts oneCallData of None \<Rightarrow> None | Some a \<Rightarrow> Some a) \<rparr>))
          else fetch_done location currentData now (st\<lparr> alertsData := None \<rparr>))"

definition handleLocationSelect :: "bool \<Rightarrow> Location \<Rightarrow> WeatherMap \<Rightarrow> WeatherMap" where
  "handleLocationSelect closure_loading location st =
     (let st = st\<lparr> currentLocationRef := Some location \<rparr>
      in if Some (locationKey location) \<noteq> locationKeyRef st
         then (fetchWeatherData closure_loading location
                 (st\<lparr> locationKeyRef := Some (locationKey location),
                      dataFetchedRef := False,
                      selectedLocation := Some location \<rparr>))
              \<lparr> dataFetchedRef := True \<rparr>
         else st\<lparr> selectedLocation := Some location \<rparr>)"

text \<open>\<^verbatim>\<open>handleSearch\<close> up to its \<^verbatim>\<open>await\<close>, and its continuation.\<close>

definition handleSearch :: "bool \<Rightarrow> string \<Rightarrow> WeatherMap \<Rightarrow> WeatherMap" where
  "handleSearch closure_loading query st =
     st\<lparr> isSearching := True, searchError := None,
         requests := requests st @ [Nominatim query],
         searches := searches st @ [closure_loading] \<rparr>"

definition search_failed :: "WeatherMap \<Rightarrow> WeatherMap" where
  "search_failed st =
     st\<lparr> searchError := Some ''Location search failed. Please try again later.'',
         isSearching := False \<rparr>"

definition after_geocode :: "bool \<Rightarrow> Candidate list fetch_result \<Rightarrow> WeatherMap \<Rightarrow> WeatherMap" where
  "after_geocode closure_loading r st =
     (case r of
        Rejected \<Rightarrow> search_failed st
      | Resolved ok body \<Rightarrow>
          if \<not> ok then search_failed st
          else (case body of
                  None \<Rightarrow> search_failed st
                | Some [] \<Rightarrow>
                    st\<lparr> searchError := Some ''Location not found. Please try another search.'',
                        isSearching := False \<rparr>
                | Some (result # _) \<Rightarrow>
                    let newLocation =
                          \<lparr> lat = c_lat result, lng = c_lon result,
                            name = Some (takeWhile (\<lambda>c. c \<noteq> CHR '','') (display_name result)) \<rparr>
                    in (handleLocationSelect closure_loading newLocation
                          (st\<lparr> searchedLocation := Some newLocation \<rparr>))
                       \<lparr> isSearching := False \<rparr>))"

definition handleRefresh :: "bool \<Rightarrow> WeatherMap \<Rightarrow> WeatherMap" where
  "handleRefresh closure_loading st =
     (case currentLocationRef st of
        None \<Rightarrow> st
      | Some current \<Rightarrow>
          (fetchWeatherData closure_loading current (st\<lparr> dataFetchedRef := False \<rparr>))
          \<lparr> dataFetchedRef := True \<rparr>)"

section \<open>The event loop\<close>

text \<open>
  The runtime serialises callbacks: one event at a time changes the state. An event is
  \<^item> a user gesture or a timer tick, handled by the handlers of the latest render, whose
    closures hold the current value of \<^verbatim>\<open>loading\<close>;
  \<^item> or the settling of a pending network call, which resumes the suspended function that
    awaits it. The response and its parsed body are awaited one after the other with no
    write in between, and settle here in one event.

  \<^verbatim>\<open>handleSearch\<close> is resumed in the scope it was called in: the
  \<^verbatim>\<open>handleLocationSelect\<close> and the \<^verbatim>\<open>fetchWeatherData\<close> that its continuation calls are
  those of the render in which the search was submitted, with the \<^verbatim>\<open>loading\<close> of that
  render.
\<close>

datatype response =
  CurrentResponse "WeatherData fetch_result"
  | ForecastResponse "ForecastData fetch_result"
  | AlertsResponse "OneCallData fetch_result" nat

datatype event =
  MapClick Location
  | SearchSubmit string
  | RefreshFired
  | FetchSettles nat response
  | GeocodeSettles nat "Candidate list fetch_result"

text \<open>
  A suspended cycle takes the response of the call it awaits; the alerts response comes
  with the reading of \<^verbatim>\<open>Date.now()\<close>.
\<close>

fun resume :: "Location \<Rightarrow> phase \<Rightarrow> response \<Rightarrow> WeatherMap \<Rightarrow> WeatherMap option" where
  "resume location AwaitCurrent (CurrentResponse r) st = Some (after_current location r st)"
| "resume location (AwaitForecast currentData) (ForecastResponse r) st =
     Some (after_forecast location currentData r st)"
| "resume location (AwaitAlerts currentData) (AlertsResponse r now) st =
     Some (after_alerts location currentData r now st)"
| "resume _ _ _ _ = None"

definition without :: "nat \<Rightarrow> 'a list \<Rightarrow> 'a list" where
  "without k xs = take k xs @ drop (Suc k) xs"

fun step :: "event \<Rightarrow> WeatherMap \<Rightarrow> WeatherMap" where
  "step (MapClick location) st = handleLocationSelect (loading st) location st"
| "step (SearchSubmit query) st = handleSearch (loading st) query st"
| "step RefreshFired st = handleRefresh (loading st) st"
| "step (FetchSettles k r) st =
     (if k < length (fetches st)
      then (case fetches st ! k of
              (location, p) \<Rightarrow>
                (case resume location p r (st\<lparr> fetches := without k (fetches st) \<rparr>) of
                   None \<Rightarrow> st
                 | Some st' \<Rightarrow> st'))
      else st)"
| "step (GeocodeSettles k r) st =
     (if k < length (searches st)
      then after_geocode (searches st ! k) r (st\<lparr> searches := without k (searches st) \<rparr>)
      else st)"

definition run :: "event list \<Rightarrow> WeatherMap \<Rightarrow> WeatherMap" where
  "run es st = fold step es st"

text \<open>A fetch cycle starts with exactly one current-weather request.\<close>

fun starts_cycle :: "request \<Rightarrow> bool" where
  "starts_cycle (CurrentWeather _ _) = True"
| "starts_cycle _ = False"

definition fetch_cycles :: "WeatherMap \<Rightarrow> nat" where
  "fetch_cycles st = length (filter starts_cycle (requests st))"

fun settles :: "event \<Rightarrow> bool" where
  "settles (FetchSettles _ _) = True"
| "settles _ = False"

text \<open>
  The events that start no search and no refresh and select nothing outside the key \<open>k\<close>:
  settlings of fetches and selections of a location whose key is \<open>k\<close>.
\<close>

fun quiet :: "string \<Rightarrow> event \<Rightarrow> bool" where
  "quiet k (MapClick location) = (locationKey location = k)"
| "quiet k (FetchSettles _ _) = True"
| "quiet k _ = False"

text \<open>
  The outcomes on which the \<^verbatim>\<open>try\<close> block throws: for the current-weather and the
  forecast call a rejected fetch, a response that is not ok, or a body that does not
  parse; for the alerts call a response that is not ok does not throw.
\<close>

fun throws :: "'a fetch_result \<Rightarrow> bool" where
  "throws Rejected = True"
| "throws (Resolved ok body) = (if ok then body = None else True)"

fun alerts_throws :: "'a fetch_result \<Rightarrow> bool" where
  "alerts_throws Rejected = True"
| "alerts_throws (Resolved ok body) = (if ok then body = None else False)"

text \<open>
  The key \<open>k\<close> is the stored dedup key and the key of the location that a refresh would
  fetch.
\<close>

definition selected_key :: "string \<Rightarrow> WeatherMap \<Rightarrow> bool" where
  "selected_key k st =
     (locationKeyRef st = Some k
      \<and> (case currentLocationRef st of None \<Rightarrow> False | Some l \<Rightarrow> locationKey l = k))"

text \<open>The events that resume a suspended search.\<close>

fun search_settles :: "event \<Rightarrow> bool" where
  "search_settles (GeocodeSettles _ _) = True"
| "search_settles _ = False"

text \<open>
  At most one fetch cycle is suspended, and \<^verbatim>\<open>loading\<close> says whether there is one.
\<close>

definition one_in_flight :: "WeatherMap \<Rightarrow> bool" where
  "one_in_flight st = (length (fetches st) \<le> 1 \<and> loading st = (fetches st \<noteq> []))"

section \<open>Sample data\<close>

definition paris :: Location where
  "paris = \<lparr> lat = 48.8566, lng = 2.3522, name = Some ''Paris'' \<rparr>"

definition paris_click :: Location where
  "paris_click = \<lparr> lat = 48.85662, lng = 2.35218, name = None \<rparr>"

definition london :: Location where
  "london = \<lparr> lat = 51.5074, lng = - 0.1278, name = None \<rparr>"

definition clear_sky :: WeatherData where
  "clear_sky =
     \<lparr> w_main = \<lparr> temp = 21.5, feels_like = 20, humidity = 40, pressure = 1013 \<rparr>,
       w_weather = [\<lparr> cond_id = 800, cond_main = ''Clear'',
                     cond_description = ''clear sky'', cond_icon = ''01d'' \<rparr>],
       w_wind = \<lparr> speed = 3, deg = 180 \<rparr>,
       w_name = ''Paris'', w_sys_country = ''FR'' \<rparr>"

definition rain :: WeatherData where
  "rain =
     \<lparr> w_main = \<lparr> temp = 12, feels_like = 10, humidity = 90, pressure = 1002 \<rparr>,
       w_weather = [\<lparr> cond_id = 500, cond_main = ''Rain'',
                     cond_description = ''light rain'', cond_icon = ''10d'' \<rparr>],
       w_wind = \<lparr> speed = 7, deg = 250 \<rparr>,
       w_name = ''Paris'', w_sys_country = ''FR'' \<rparr>"

definition five_days :: ForecastData where
  "five_days = \<lparr> f_list = [], f_city_name = ''Paris'', f_city_country = ''FR'' \<rparr>"

definition gale :: Alert where
  "gale = \<lparr> sender_name = ''Meteo'', event = ''Gale'', start = 1700000000,
            alert_end = 1700003600, description = ''Strong wind'', tags = [''Wind''] \<rparr>"

text \<open>A first cycle for Paris that succeeds, its alerts call answered with an error status.\<close>

definition shown :: "event list" where
  "shown =
     [MapClick paris,
      FetchSettles 0 (CurrentResponse (Resolved True (Some clear_sky))),
      FetchSettles 0 (ForecastResponse (Resolved True (Some five_days))),
      FetchSettles 0 (AlertsResponse (Resolved False None) 1000)]"

text \<open>A first cycle for Paris that succeeds and brings one alert.\<close>

definition stormy :: "event list" where
  "stormy =
     [MapClick paris,
      FetchSettles 0 (CurrentResponse (Resolved True (Some clear_sky))),
      FetchSettles 0 (ForecastResponse (Resolved True (Some five_days))),
      FetchSettles 0 (AlertsResponse (Resolved True (Some \<lparr> alerts = Some [gale] \<rparr>)) 1000)]"

text \<open>
  Then a refresh whose current-weather and forecast calls succeed and whose alerts call
  is rejected.
\<close>

definition alerts_rejected :: "event list" where
  "alerts_rejected =
     stormy @
     [RefreshFired,
      FetchSettles 0 (CurrentResponse (Resolved True (Some rain))),
      FetchSettles 0 (ForecastResponse (Resolved True (Some five_days))),
      FetchSettles 0 (AlertsResponse Rejected 2000)]"

text \<open>A first cycle for Paris whose alerts response is ok and has no \<^verbatim>\<open>alerts\<close> field.\<close>

definition fieldless :: "event list" where
  "fieldless =
     [MapClick paris,
      FetchSettles 0 (CurrentResponse (Resolved True (Some clear_sky))),
      FetchSettles 0 (ForecastResponse (Resolved True (Some five_days))),
      FetchSettles 0 (AlertsResponse (Resolved True (Some \<lparr> alerts = None \<rparr>)) 1000)]"

text \<open>Two geocoding candidates.\<close>

definition paris_found :: Candidate where
  "paris_found =
     \<lparr> c_lat = 48.8566, c_lon = 2.3522, display_name = ''Paris, Ile-de-France, France'' \<rparr>"

definition london_found :: Candidate where
  "london_found =
     \<lparr> c_lat = 51.5074, c_lon = - 0.1278, display_name = ''London, England, United Kingdom'' \<rparr>"

text \<open>
  A search is submitted with nothing in flight, the map is clicked before the geocoder
  answers, then the geocoder answers.
\<close>

definition overlap :: "event list" where
  "overlap =
     [SearchSubmit ''London'',
      MapClick paris,
      GeocodeSettles 0 (Resolved True (Some [london_found]))]"

text \<open>
  Two points on the same parallel, a step west and a step east of the prime meridian, and
  a full cycle for the first one followed by the selection of the second.
\<close>

definition west :: Location where
  "west = \<lparr> lat = 51.4779, lng = - 0.00001, name = None \<rparr>"

definition east :: Location where
  "east = \<lparr> lat = 51.4779, lng = 0.00001, name = None \<rparr>"

definition across :: "event list" where
  "across =
     [MapClick west,
      FetchSettles 0 (CurrentResponse (Resolved True (Some clear_sky))),
      FetchSettles 0 (ForecastResponse (Resolved True (Some five_days))),
      FetchSettles 0 (AlertsResponse (Resolved False None) 1000),
      MapClick east]"

text \<open>The settlings of a cycle that succeeds, its alerts call answered with an error status.\<close>

definition reselected :: "event list" where
  "reselected =
     [FetchSettles 0 (CurrentResponse (Resolved True (Some clear_sky))),
      FetchSettles 0 (ForecastResponse (Resolved True (Some five_days))),
      FetchSettles 0 (AlertsResponse (Resolved False None) 1000)]"

section \<open>Evaluating keys and traces\<close>

lemma floor_rat_numeral: "\<lfloor>numeral a / (numeral b :: rat)\<rfloor> = numeral a div numeral b"
  using floor_divide_of_int_eq [of "numeral a" "numeral b", where ?'a = rat] by simp

lemma digits_small: "n < 10 \<Longrightarrow> digits n = [''0123456789'' ! n]"
  by (simp add: digits.simps)

lemma digits_big: "\<not> n < 10 \<Longrightarrow> digits n = digits (n div 10) @ [''0123456789'' ! (n mod 10)]"
  by (subst digits.simps) simp

lemma replicate_small:
  "replicate 2 x = [x, x]" "replicate 3 x = [x, x, x]" "replicate 4 x = [x, x, x, x]"
  by (simp_all add: numeral_eq_Suc)

lemmas toFixed4_eval =
  toFixed4_def Let_def floor_rat_numeral digits_small digits_big replicate_small

lemma key_paris: "locationKey paris = ''48.8566,2.3522''"
  by (simp add: locationKey_def paris_def toFixed4_eval)

lemma key_paris_click: "locationKey paris_click = ''48.8566,2.3522''"
  by (simp add: locationKey_def paris_click_def toFixed4_eval)

lemma key_london: "locationKey london = ''51.5074,-0.1278''"
  by (simp add: locationKey_def london_def toFixed4_eval)

text \<open>The sign is printed before rounding: a small negative number prints as minus zero.\<close>

lemma signed_zero:
  "toFixed4 (- 0.00001) = ''-0.0000'' \<and> toFixed4 0.00001 = ''0.0000''"
  by (simp add: toFixed4_eval)

lemma key_found:
  "locationKey \<lparr> lat = c_lat london_found, lng = c_lon london_found, name = n \<rparr>
     = ''51.5074,-0.1278''"
  by (simp add: locationKey_def london_found_def toFixed4_eval)

lemma key_west: "locationKey west = ''51.4779,-0.0000''"
  by (simp add: locationKey_def west_def toFixed4_eval)

lemma key_east: "locationKey east = ''51.4779,0.0000''"
  by (simp add: locationKey_def east_def toFixed4_eval)


lemma without_last [simp]: "without (length xs) (xs @ [x]) = xs"
  by (simp add: without_def)

lemma run_Nil [simp]: "run [] st = st"
  by (simp add: run_def)

lemma run_Cons [simp]: "run (e # es) st = run es (step e st)"
  by (simp add: run_def)

lemma run_append [simp]: "run (es @ es') st = run es' (run es st)"
  by (simp add: run_def)

lemmas trace_eval =
  init_def handleLocationSelect_def handleRefresh_def fetchWeatherData_def Let_def
  after_current_def after_forecast_def after_alerts_def fetch_failed_def fetch_done_def
  reconcile_def without_def fetch_cycles_def key_paris key_paris_click key_london

section \<open>Selecting a location\<close>

lemma select_same_key:
  assumes "locationKeyRef st = Some (locationKey location)"
  shows "handleLocationSelect c location st =
           st\<lparr> currentLocationRef := Some location, selectedLocation := Some location \<rparr>"
  using assms by (simp add: handleLocationSelect_def Let_def)

lemma select_new_key:
  assumes "locationKeyRef st \<noteq> Some (locationKey location)"
  shows "handleLocationSelect c location st =
           (fetchWeatherData c location
              (st\<lparr> currentLocationRef := Some location,
                   locationKeyRef := Some (locationKey location),
                   dataFetchedRef := False,
                   selectedLocation := Some location \<rparr>))
           \<lparr> dataFetchedRef := True \<rparr>"
  using assms by (auto simp add: handleLocationSelect_def Let_def)

lemma resume_keeps:
  assumes "resume location p r st = Some st'"
  shows "locationKeyRef st' = locationKeyRef st \<and> fetch_cycles st' = fetch_cycles st"
  using assms
  by (cases p; cases r)
     (auto simp: after_current_def after_forecast_def after_alerts_def fetch_failed_def
         fetch_done_def fetch_cycles_def split: fetch_result.splits option.splits if_splits)

lemma settle_keeps:
  assumes "settles e"
  shows "locationKeyRef (step e st) = locationKeyRef st
         \<and> fetch_cycles (step e st) = fetch_cycles st"
proof (cases e)
  case (FetchSettles k r)
  show ?thesis
  proof (cases "k < length (fetches st)")
    case True
    obtain location p where c: "fetches st ! k = (location, p)"
      by (cases "fetches st ! k")
    show ?thesis
    proof (cases "resume location p r (st\<lparr> fetches := without k (fetches st) \<rparr>)")
      case None
      with True c FetchSettles show ?thesis by simp
    next
      case (Some st')
      from resume_keeps [OF Some] True c Some FetchSettles show ?thesis
        by (simp add: fetch_cycles_def)
    qed
  next
    case False
    with FetchSettles show ?thesis by simp
  qed
qed (use assms in simp_all)

lemma settles_keep:
  assumes "list_all settles es"
  shows "locationKeyRef (run es st) = locationKeyRef st
         \<and> fetch_cycles (run es st) = fetch_cycles st"
  using assms
proof (induction es arbitrary: st)
  case Nil
  show ?case by simp
next
  case (Cons e es)
  then show ?case using settle_keeps [of e st] by simp
qed

text \<open>
  C1 as stated fails. The two points have the same coordinates when rounded to 4 decimal
  places, yet their keys differ, since \<^verbatim>\<open>toFixed(4)\<close> prints the sign of the small
  negative longitude: selecting the second after the cycle of the first has ended starts
  a second cycle.
\<close>

theorem rounded_equal_two_cycles:
  "rounded4 (lat west) = rounded4 (lat east)
   \<and> rounded4 (lng west) = rounded4 (lng east)
   \<and> fetch_cycles (run across init) = 2"
proof -
  have "rounded4 (lat west) = rounded4 (lat east)"
    by (simp add: west_def east_def)
  moreover have "rounded4 (lng west) = rounded4 (lng east)"
    by (simp add: west_def east_def rounded4_def floor_rat_numeral)
  moreover have "fetch_cycles (run across init) = 2"
    by (simp add: across_def trace_eval key_west key_east)
  ultimately show ?thesis
    by blast
qed

text \<open>
  C1, amended. Two locations with the same dedup key, the string that \<^verbatim>\<open>toFixed(4)\<close>
  prints for the coordinates, are selected one after the other, with any settlings of
  fetches in between. The second selection issues no request and still becomes the
  selected location; and when the first selection happens with no cycle in flight and with
  another key stored, as in the initial state, the two selections start exactly one fetch
  cycle.
\<close>

theorem same_key_one_cycle:
  assumes "locationKey L1 = locationKey L2" and "list_all settles es"
  shows "(\<not> loading st \<and> locationKeyRef st \<noteq> Some (locationKey L1) \<longrightarrow>
            fetch_cycles (run (MapClick L1 # es @ [MapClick L2]) st) = fetch_cycles st + 1)
         \<and> requests (run (MapClick L1 # es @ [MapClick L2]) st)
             = requests (run (MapClick L1 # es) st)
         \<and> selectedLocation (run (MapClick L1 # es @ [MapClick L2]) st) = Some L2"
proof -
  let ?s1 = "step (MapClick L1) st"
  let ?s2 = "run es ?s1"
  have "locationKeyRef ?s1 = Some (locationKey L1)"
    by (simp add: handleLocationSelect_def Let_def fetchWeatherData_def)
  then have k: "locationKeyRef ?s2 = Some (locationKey L2)"
    and f: "fetch_cycles ?s2 = fetch_cycles ?s1"
    using settles_keep [OF assms(2), of ?s1] assms(1) by simp_all
  have last: "step (MapClick L2) ?s2 =
      ?s2\<lparr> currentLocationRef := Some L2, selectedLocation := Some L2 \<rparr>"
    using select_same_key [OF k] by simp
  have first: "\<not> loading st \<Longrightarrow> locationKeyRef st \<noteq> Some (locationKey L1) \<Longrightarrow>
      fetch_cycles ?s1 = fetch_cycles st + 1"
    by (simp add: select_new_key fetchWeatherData_def fetch_cycles_def)
  have all: "run (MapClick L1 # es @ [MapClick L2]) st =
      ?s2\<lparr> currentLocationRef := Some L2, selectedLocation := Some L2 \<rparr>"
    using last by simp
  have c: "fetch_cycles (run (MapClick L1 # es @ [MapClick L2]) st) = fetch_cycles ?s1"
    unfolding all using f by (simp add: fetch_cycles_def)
  have A: "\<not> loading st \<and> locationKeyRef st \<noteq> Some (locationKey L1) \<longrightarrow>
      fetch_cycles (run (MapClick L1 # es @ [MapClick L2]) st) = fetch_cycles st + 1"
    unfolding c using first by blast
  have B: "requests (run (MapClick L1 # es @ [MapClick L2]) st)
      = requests (run (MapClick L1 # es) st)"
    unfolding all by simp
  have C: "selectedLocation (run (MapClick L1 # es @ [MapClick L2]) st) = Some L2"
    unfolding all by simp
  from A B C show ?thesis
    by blast
qed

theorem same_key_one_cycle_witness:
  "locationKey paris = locationKey paris_click \<and> paris \<noteq> paris_click
   \<and> list_all settles reselected
   \<and> \<not> loading init \<and> locationKeyRef init \<noteq> Some (locationKey paris)
   \<and> \<not> loading (run (MapClick paris # reselected) init)
   \<and> fetch_cycles (run (MapClick paris # reselected @ [MapClick paris_click]) init) = 1
   \<and> requests (run (MapClick paris # reselected @ [MapClick paris_click]) init)
       = requests (run (MapClick paris # reselected) init)
   \<and> selectedLocation (run (MapClick paris # reselected @ [MapClick paris_click]) init)
       = Some paris_click"
proof -
  have k: "locationKey paris = locationKey paris_click"
    by (simp add: key_paris key_paris_click)
  have s: "list_all settles reselected"
    by (simp add: reselected_def)
  have i: "\<not> loading init" "locationKeyRef init \<noteq> Some (locationKey paris)"
    "fetch_cycles init = 0"
    by (simp_all add: init_def fetch_cycles_def)
  have d: "paris \<noteq> paris_click"
    by (simp add: paris_def paris_click_def)
  have l: "\<not> loading (run (MapClick paris # reselected) init)"
    by (simp add: reselected_def trace_eval)
  from same_key_one_cycle [OF k s, of init] i
  have "fetch_cycles (run (MapClick paris # reselected @ [MapClick paris_click]) init) = 1"
    and "requests (run (MapClick paris # reselected @ [MapClick paris_click]) init)
       = requests (run (MapClick paris # reselected) init)"
    and "selectedLocation (run (MapClick paris # reselected @ [MapClick paris_click]) init)
       = Some paris_click"
    by simp_all
  with k s i d l show ?thesis
    by blast
qed

section \<open>A selection while a cycle is in flight\<close>

lemma resume_keeps_current:
  assumes "resume location p r st = Some st'"
  shows "currentLocationRef st' = currentLocationRef st"
  using assms
  by (cases p; cases r)
     (auto simp: after_current_def after_forecast_def after_alerts_def fetch_failed_def
         fetch_done_def split: fetch_result.splits option.splits if_splits)

lemma settle_keeps_current:
  "currentLocationRef (step (FetchSettles k r) st) = currentLocationRef st"
proof (cases "k < length (fetches st)")
  case True
  obtain location p where c: "fetches st ! k = (location, p)"
    by (cases "fetches st ! k")
  show ?thesis
  proof (cases "resume location p r (st\<lparr> fetches := without k (fetches st) \<rparr>)")
    case None
    with True c show ?thesis by simp
  next
    case (Some st')
    from resume_keeps_current [OF Some] True c Some show ?thesis
      by simp
  qed
next
  case False
  then show ?thesis by simp
qed

lemma quiet_step:
  assumes "quiet k e" and "selected_key k st"
  shows "selected_key k (step e st) \<and> fetch_cycles (step e st) = fetch_cycles st"
proof (cases e)
  case (MapClick l)
  with assms have "locationKeyRef st = Some (locationKey l)"
    by (simp add: selected_key_def)
  from select_same_key [OF this] MapClick assms show ?thesis
    by (simp add: selected_key_def fetch_cycles_def)
next
  case (FetchSettles i r)
  then have "settles e" by simp
  from settle_keeps [OF this, of st] settle_keeps_current [of i r st] FetchSettles assms(2)
  show ?thesis
    by (simp add: selected_key_def)
qed (use assms in simp_all)

lemma quiet_run:
  assumes "list_all (quiet k) es" and "selected_key k st"
  shows "selected_key k (run es st) \<and> fetch_cycles (run es st) = fetch_cycles st"
  using assms
proof (induction es arbitrary: st)
  case Nil
  then show ?case by simp
next
  case (Cons e es)
  from Cons.prems have q: "quiet k e" and qs: "list_all (quiet k) es"
    by simp_all
  from quiet_step [OF q Cons.prems(2)] Cons.IH [OF qs, of "step e st"] show ?case
    by simp
qed

text \<open>
  C10. A location with a new key is selected while a cycle is in flight. The stored key
  becomes the new key although the guarded fetch issues no request, and whatever
  settlings of fetches and selections of that same key follow, no fetch cycle starts;
  once no cycle is in flight, a refresh starts one.
\<close>

theorem suppressed_selection_never_fetched:
  assumes "loading st" and "locationKeyRef st \<noteq> Some (locationKey L)"
    and "list_all (quiet (locationKey L)) es"
  shows "locationKeyRef (step (MapClick L) st) = Some (locationKey L)
         \<and> requests (step (MapClick L) st) = requests st
         \<and> fetch_cycles (run (MapClick L # es) st) = fetch_cycles st
         \<and> (\<not> loading (run (MapClick L # es) st) \<longrightarrow>
              fetch_cycles (step RefreshFired (run (MapClick L # es) st)) = fetch_cycles st + 1)"
proof -
  define s1 where "s1 = step (MapClick L) st"
  define s2 where "s2 = run es s1"
  have s1: "s1 = st\<lparr> currentLocationRef := Some L, locationKeyRef := Some (locationKey L),
      dataFetchedRef := True, selectedLocation := Some L \<rparr>"
    unfolding s1_def
    using assms(1) select_new_key [OF assms(2), of True] by (simp add: fetchWeatherData_def)
  have A: "locationKeyRef s1 = Some (locationKey L)" and B: "requests s1 = requests st"
    unfolding s1 by simp_all
  have sel: "selected_key (locationKey L) s1"
    unfolding s1 by (simp add: selected_key_def)
  have f1: "fetch_cycles s1 = fetch_cycles st"
    unfolding s1 by (simp add: fetch_cycles_def)
  from quiet_run [OF assms(3) sel] have sel2: "selected_key (locationKey L) s2"
    and f2: "fetch_cycles s2 = fetch_cycles st"
    using f1 by (simp_all add: s2_def)
  have r: "run (MapClick L # es) st = s2"
    by (simp add: s2_def s1_def)
  from sel2 obtain l where l: "currentLocationRef s2 = Some l"
    by (auto simp: selected_key_def split: option.splits)
  have D: "\<not> loading s2 \<longrightarrow> fetch_cycles (step RefreshFired s2) = fetch_cycles st + 1"
    using l f2 by (simp add: handleRefresh_def fetchWeatherData_def fetch_cycles_def)
  from A B f2 D show ?thesis
    unfolding r s1_def [symmetric] by blast
qed

theorem suppressed_selection_never_fetched_witness:
  "loading (step (MapClick paris) init)
   \<and> locationKeyRef (step (MapClick paris) init) \<noteq> Some (locationKey london)
   \<and> list_all (quiet (locationKey london))
        [FetchSettles 0 (CurrentResponse Rejected), MapClick london]
   \<and> fetch_cycles (step (MapClick paris) init) = 1
   \<and> fetch_cycles (run [MapClick london, FetchSettles 0 (CurrentResponse Rejected),
        MapClick london] (step (MapClick paris) init)) = 1
   \<and> fetch_cycles (run [MapClick london, FetchSettles 0 (CurrentResponse Rejected),
        MapClick london, RefreshFired] (step (MapClick paris) init)) = 2"
proof -
  define st where "st = step (MapClick paris) init"
  define es where "es = [FetchSettles 0 (CurrentResponse Rejected), MapClick london]"
  have h1: "loading st" and h2: "locationKeyRef st \<noteq> Some (locationKey london)"
    and f: "fetch_cycles st = 1"
    by (simp_all add: st_def trace_eval)
  have h3: "list_all (quiet (locationKey london)) es"
    by (simp add: es_def)
  have idle: "\<not> loading (run (MapClick london # es) st)"
    by (simp add: st_def es_def trace_eval)
  have e: "run [MapClick london, FetchSettles 0 (CurrentResponse Rejected), MapClick london,
      RefreshFired] st = step RefreshFired (run (MapClick london # es) st)"
    by (simp add: es_def)
  from suppressed_selection_never_fetched [OF h1 h2 h3] idle f
  have "fetch_cycles (run (MapClick london # es) st) = 1"
    and "fetch_cycles (step RefreshFired (run (MapClick london # es) st)) = 2"
    by simp_all
  with h1 h2 h3 f e show ?thesis
    unfolding st_def [symmetric] by (simp add: es_def)
qed

section \<open>Selecting two different locations\<close>

text \<open>
  C2 as stated fails. Paris, then London while the cycle for Paris is still in flight:
  the keys differ and one cycle has started, not two.
\<close>

theorem second_selection_suppressed:
  "locationKey paris \<noteq> locationKey london
   \<and> fetch_cycles (run [MapClick paris, MapClick london] init) = 1"
  by (simp add: trace_eval)

text \<open>
  C2, amended. Two locations with different keys are selected one after the other, the
  first one with no cycle in flight and another key stored, with any settlings of fetches
  in between. If the first cycle has ended when the second location is selected, two
  cycles have started; if it is still in flight, the guard of \<^verbatim>\<open>fetchWeatherData\<close>
  suppresses the second fetch and one cycle has started. In both cases the stored key and
  the selected location are those of the second location.
\<close>

theorem distinct_keys_cycles:
  assumes "locationKey L1 \<noteq> locationKey L2" and "list_all settles es"
    and "\<not> loading st" and "locationKeyRef st \<noteq> Some (locationKey L1)"
  shows "fetch_cycles (run (MapClick L1 # es @ [MapClick L2]) st) =
           fetch_cycles st + (if loading (run (MapClick L1 # es) st) then 1 else 2)
         \<and> locationKeyRef (run (MapClick L1 # es @ [MapClick L2]) st) = Some (locationKey L2)
         \<and> selectedLocation (run (MapClick L1 # es @ [MapClick L2]) st) = Some L2"
proof -
  define s1 where "s1 = step (MapClick L1) st"
  define s2 where "s2 = run es s1"
  define s3 where "s3 = step (MapClick L2) s2"
  have k1: "locationKeyRef s1 = Some (locationKey L1)"
    by (simp add: s1_def handleLocationSelect_def Let_def fetchWeatherData_def)
  have f1: "fetch_cycles s1 = fetch_cycles st + 1"
    using assms(3,4) by (simp add: s1_def select_new_key fetchWeatherData_def fetch_cycles_def)
  from settles_keep [OF assms(2), of s1] k1 f1
  have k2: "locationKeyRef s2 = Some (locationKey L1)"
    and f2: "fetch_cycles s2 = fetch_cycles st + 1"
    by (simp_all add: s2_def)
  from k2 assms(1) have new: "locationKeyRef s2 \<noteq> Some (locationKey L2)"
    by simp
  have f3: "fetch_cycles s3 = fetch_cycles s2 + (if loading s2 then 0 else 1)"
    by (simp add: s3_def select_new_key [OF new] fetchWeatherData_def fetch_cycles_def)
  have k3: "locationKeyRef s3 = Some (locationKey L2)" and sel: "selectedLocation s3 = Some L2"
    by (simp_all add: s3_def handleLocationSelect_def Let_def fetchWeatherData_def)
  have r: "run (MapClick L1 # es @ [MapClick L2]) st = s3"
    and r2: "run (MapClick L1 # es) st = s2"
    by (simp_all add: s3_def s2_def s1_def)
  from f3 f2 k3 sel show ?thesis
    unfolding r r2 by simp
qed

theorem distinct_keys_cycles_witness:
  "locationKey paris \<noteq> locationKey london
   \<and> fetch_cycles (run (shown @ [MapClick london]) init) = 2
   \<and> fetch_cycles (run [MapClick paris, MapClick london] init) = 1"
proof -
  have k: "locationKey paris \<noteq> locationKey london"
    by (simp add: key_paris key_london)
  have i: "\<not> loading init" "locationKeyRef init \<noteq> Some (locationKey paris)" "fetch_cycles init = 0"
    by (simp_all add: init_def fetch_cycles_def)
  define es where "es = [FetchSettles 0 (CurrentResponse (Resolved True (Some clear_sky))),
      FetchSettles 0 (ForecastResponse (Resolved True (Some five_days))),
      FetchSettles 0 (AlertsResponse (Resolved False None) 1000)]"
  have s: "list_all settles es" "list_all settles []"
    by (simp_all add: es_def)
  have l: "\<not> loading (run (MapClick paris # es) init)" "loading (run (MapClick paris # []) init)"
    by (simp_all add: es_def trace_eval)
  have sh: "shown @ [MapClick london] = MapClick paris # es @ [MapClick london]"
    by (simp add: shown_def es_def)
  from distinct_keys_cycles [OF k s(1) i(1,2)] l(1) i(3)
  have a: "fetch_cycles (run (MapClick paris # es @ [MapClick london]) init) = 2"
    by simp
  from distinct_keys_cycles [OF k s(2) i(1,2)] l(2) i(3)
  have b: "fetch_cycles (run (MapClick paris # [] @ [MapClick london]) init) = 1"
    by simp
  from a b k show ?thesis
    unfolding sh by simp
qed

section \<open>A fetch cycle that fails\<close>








section \<open>The alerts call\<close>

text \<open>
  An alerts call answered with an error status is not fatal, and the time of the last
  update changes only at the end of a cycle whose alerts step does not throw.
\<close>

lemma alerts_error_status_not_fatal:
  "lastUpdated (after_alerts location currentData (Resolved False body) now st) = Some now
   \<and> alertsData (after_alerts location currentData (Resolved False body) now st) = None
   \<and> error (after_alerts location currentData (Resolved False body) now st) = error st
   \<and> \<not> loading (after_alerts location currentData (Resolved False body) now st)"
  by (simp add: after_alerts_def fetch_done_def)

lemma lastUpdated_only_at_end:
  "lastUpdated (fetchWeatherData c location st) = lastUpdated st
   \<and> lastUpdated (after_current location r1 st) = lastUpdated st
   \<and> lastUpdated (after_forecast location currentData r2 st) = lastUpdated st
   \<and> lastUpdated (after_alerts location currentData r3 now st)
       = (if alerts_throws r3 then lastUpdated st else Some now)"
  by (cases r1; cases r2; cases r3)
     (simp_all add: fetchWeatherData_def after_current_def after_forecast_def after_alerts_def
        fetch_failed_def fetch_done_def split: option.splits)

text \<open>
  C5. After a cycle at time 1000 that brought an alert, a refresh gets the current weather
  and the forecast and then its alerts call is rejected at time 2000: the time of the last
  update stays 1000, the old alert stays, and the error message is set, although the
  weather shown is the new one.
\<close>

theorem rejected_alerts_call_aborts:
  "lastUpdated (run stormy init) = Some 1000
   \<and> alertsData (run stormy init) = Some [gale]
   \<and> lastUpdated (run alerts_rejected init) = Some 1000
   \<and> alertsData (run alerts_rejected init) = Some [gale]
   \<and> weatherData (run alerts_rejected init) = Some rain
   \<and> forecastData (run alerts_rejected init) = Some five_days
   \<and> error (run alerts_rejected init)
       = Some ''Failed to fetch weather data. Please try again later.''"
  by (simp add: alerts_rejected_def stormy_def trace_eval)

text \<open>
  C8 as stated fails. A successful alerts response without the \<^verbatim>\<open>alerts\<close> field leaves
  the same value as an alerts call answered with an error status, and not the empty list.
\<close>

theorem missing_alerts_field_is_null:
  "alertsData (run fieldless init) = alertsData (run shown init)
   \<and> alertsData (run fieldless init) \<noteq> Some []"
  by (simp add: fieldless_def shown_def trace_eval)

text \<open>
  C8, amended. A successful alerts response stores its \<^verbatim>\<open>alerts\<close> field as it is: a
  missing field is stored as \<^verbatim>\<open>null\<close>, the value that an alerts call answered with an
  error status stores, and the empty list is stored when the field is present and empty.
\<close>

theorem alerts_field_stored:
  "alertsData (after_alerts location currentData (Resolved True (Some oneCallData)) now st)
     = alerts oneCallData
   \<and> alertsData (after_alerts location currentData (Resolved True (Some \<lparr> alerts = None \<rparr>)) now st)
     = alertsData (after_alerts location currentData (Resolved False body) now st)
   \<and> alertsData (after_alerts location currentData (Resolved False body) now st) = None
   \<and> alertsData (after_alerts location currentData (Resolved True (Some \<lparr> alerts = Some [] \<rparr>)) now st)
     = Some []"
  by (simp add: after_alerts_def fetch_done_def split: option.splits)

section \<open>The name of the selected location\<close>

text \<open>
  C9. The first two steps of a cycle for \<open>L\<close> leave the selected location alone. The last
  step keeps its coordinates in every case; it changes the name only if the coordinates of
  the selected location equal those of \<open>L\<close>, and then to the name of the current-weather
  response; when the coordinates differ the selected location is unchanged; and when they
  are equal and the alerts step does not throw, the name is replaced.
\<close>

theorem name_reconciled_on_match:
  "selectedLocation (after_current L r1 st) = selectedLocation st
   \<and> selectedLocation (after_forecast L currentData r2 st) = selectedLocation st
   \<and> (selectedLocation st = None \<longrightarrow>
        selectedLocation (after_alerts L currentData r now st) = None)
   \<and> (selectedLocation st = Some p \<longrightarrow>
        (\<exists>p'. selectedLocation (after_alerts L currentData r now st) = Some p'
              \<and> lat p' = lat p \<and> lng p' = lng p
              \<and> (name p' \<noteq> name p \<longrightarrow>
                    lat p = lat L \<and> lng p = lng L \<and> name p' = Some (w_name currentData)))
        \<and> (lat p \<noteq> lat L \<or> lng p \<noteq> lng L \<longrightarrow>
              selectedLocation (after_alerts L currentData r now st) = Some p)
        \<and> (\<not> alerts_throws r \<and> lat p = lat L \<and> lng p = lng L \<longrightarrow>
              selectedLocation (after_alerts L currentData r now st)
                = Some (p\<lparr> name := Some (w_name currentData) \<rparr>)))"
proof -
  have A: "selectedLocation (after_current L r1 st) = selectedLocation st"
    by (cases r1) (simp_all add: after_current_def fetch_failed_def split: option.splits)
  have B: "selectedLocation (after_forecast L currentData r2 st) = selectedLocation st"
    by (cases r2) (simp_all add: after_forecast_def fetch_failed_def split: option.splits)
  have C: "selectedLocation (after_alerts L currentData r now st) =
      (if alerts_throws r then selectedLocation st
       else reconcile L currentData (selectedLocation st))"
    by (cases r) (simp_all add: after_alerts_def fetch_failed_def fetch_done_def split: option.splits)
  show ?thesis
    unfolding A B C by (auto simp: reconcile_def)
qed

theorem name_reconciled_on_match_witness:
  "selectedLocation (run [MapClick paris_click,
       FetchSettles 0 (CurrentResponse (Resolved True (Some clear_sky))),
       FetchSettles 0 (ForecastResponse (Resolved True (Some five_days)))] init) = Some paris_click
   \<and> selectedLocation (after_alerts paris_click clear_sky (Resolved False None) 1000
        (run [MapClick paris_click,
           FetchSettles 0 (CurrentResponse (Resolved True (Some clear_sky))),
           FetchSettles 0 (ForecastResponse (Resolved True (Some five_days)))] init))
       = Some (paris_click\<lparr> name := Some ''Paris'' \<rparr>)
   \<and> selectedLocation (run [MapClick paris_click,
       FetchSettles 0 (CurrentResponse (Resolved True (Some clear_sky))),
       FetchSettles 0 (ForecastResponse (Resolved True (Some five_days))),
       MapClick london] init) = Some london
   \<and> selectedLocation (after_alerts paris_click clear_sky (Resolved False None) 1000
        (run [MapClick paris_click,
           FetchSettles 0 (CurrentResponse (Resolved True (Some clear_sky))),
           FetchSettles 0 (ForecastResponse (Resolved True (Some five_days))),
           MapClick london] init))
       = Some london"
proof -
  define s where "s = run [MapClick paris_click,
       FetchSettles 0 (CurrentResponse (Resolved True (Some clear_sky))),
       FetchSettles 0 (ForecastResponse (Resolved True (Some five_days)))] init"
  define s' where "s' = step (MapClick london) s"
  have a: "selectedLocation s = Some paris_click"
    by (simp add: s_def trace_eval)
  have b: "selectedLocation s' = Some london"
    by (simp add: s'_def handleLocationSelect_def Let_def fetchWeatherData_def)
  have n: "\<not> alerts_throws (Resolved False None :: OneCallData fetch_result)"
    by simp
  have d: "lat london \<noteq> lat paris_click"
    by (simp add: london_def paris_click_def)
  have w: "w_name clear_sky = ''Paris''"
    by (simp add: clear_sky_def)
  from name_reconciled_on_match [where L = paris_click and st = s and currentData = clear_sky and p = paris_click
      and r = "Resolved False None" and now = 1000] a n w
  have 1: "selectedLocation (after_alerts paris_click clear_sky (Resolved False None) 1000 s)
      = Some (paris_click\<lparr> name := Some ''Paris'' \<rparr>)"
    by simp
  from name_reconciled_on_match [where L = paris_click and st = s' and currentData = clear_sky and p = london
      and r = "Resolved False None" and now = 1000] b d
  have 2: "selectedLocation (after_alerts paris_click clear_sky (Resolved False None) 1000 s')
      = Some london"
    by simp
  have e: "run [MapClick paris_click,
       FetchSettles 0 (CurrentResponse (Resolved True (Some clear_sky))),
       FetchSettles 0 (ForecastResponse (Resolved True (Some five_days))),
       MapClick london] init = s'"
    by (simp add: s'_def s_def)
  from a b 1 2 show ?thesis
    unfolding e unfolding s_def [symmetric] by simp
qed

section \<open>Refresh\<close>

text \<open>
  C6. With no location ever selected the refresh changes nothing. Otherwise it calls
  \<^verbatim>\<open>fetchWeatherData\<close> on the stored location and, when that call sees no cycle in
  flight, issues the current-weather request for it: one more fetch cycle. The stored key
  is not read: the refresh does the same whatever the key is.
\<close>

theorem refresh_bypasses_key:
  "(currentLocationRef st = None \<longrightarrow> handleRefresh c st = st)
   \<and> (currentLocationRef st = Some current \<longrightarrow>
        handleRefresh c st = (fetchWeatherData c current st)\<lparr> dataFetchedRef := True \<rparr>
        \<and> (\<not> c \<longrightarrow>
              requests (handleRefresh c st)
                = requests st @ [CurrentWeather (lat current) (lng current)]
              \<and> fetch_cycles (handleRefresh c st) = fetch_cycles st + 1))
   \<and> handleRefresh c (st\<lparr> locationKeyRef := k \<rparr>) = (handleRefresh c st)\<lparr> locationKeyRef := k \<rparr>"
  by (cases "currentLocationRef st")
     (simp_all add: handleRefresh_def fetchWeatherData_def fetch_cycles_def)

theorem refresh_bypasses_key_witness:
  "currentLocationRef init = None \<and> step RefreshFired init = init
   \<and> currentLocationRef (run shown init) = Some paris
   \<and> locationKeyRef (run shown init) = Some (locationKey paris)
   \<and> \<not> loading (run shown init)
   \<and> requests (step RefreshFired (run shown init))
       = requests (run shown init) @ [CurrentWeather (lat paris) (lng paris)]
   \<and> fetch_cycles (step RefreshFired (run shown init)) = 2"
proof -
  have i: "currentLocationRef init = None" "\<not> loading init"
    by (simp_all add: init_def)
  have s: "currentLocationRef (run shown init) = Some paris"
    "locationKeyRef (run shown init) = Some (locationKey paris)"
    "\<not> loading (run shown init)" "fetch_cycles (run shown init) = 1"
    by (simp_all add: shown_def trace_eval)
  from refresh_bypasses_key [where st = init and c = False and k = None] i(1)
  have 1: "handleRefresh False init = init"
    by blast
  from refresh_bypasses_key [where st = "run shown init" and current = paris and c = False and k = None] s(1)
  have 2: "requests (handleRefresh False (run shown init))
      = requests (run shown init) @ [CurrentWeather (lat paris) (lng paris)]"
    and 3: "fetch_cycles (handleRefresh False (run shown init)) = fetch_cycles (run shown init) + 1"
    by blast+
  from 1 2 3 i s show ?thesis
    by simp
qed

section \<open>Search\<close>

text \<open>
  C7. Submitting a search issues the geocoding request and starts no fetch cycle. When
  the geocoder answers with no candidate, the search ends with the message that asks for
  another search and with no further request. When it answers with candidates, the
  location is built from the first one, named by the part of the display name before its
  first comma, and handed to \<^verbatim>\<open>handleLocationSelect\<close>: the state is the one that a map
  click on that location in place of the answer would give, but for the searched location
  and the fields of the search itself. The continuation is also stated in whatever state
  and closure it runs.
\<close>

theorem search_selects_first_candidate:
  "requests (step (SearchSubmit query) st) = requests st @ [Nominatim query]
   \<and> isSearching (step (SearchSubmit query) st)
   \<and> searchError (step (SearchSubmit query) st) = None
   \<and> run [SearchSubmit query,
           GeocodeSettles (length (searches st)) (Resolved True (Some []))] st
       = st\<lparr> isSearching := False,
             searchError := Some ''Location not found. Please try another search.'',
             requests := requests st @ [Nominatim query] \<rparr>
   \<and> fetch_cycles (run [SearchSubmit query,
           GeocodeSettles (length (searches st)) (Resolved True (Some []))] st)
       = fetch_cycles st
   \<and> after_geocode c (Resolved True (Some [])) st
       = st\<lparr> searchError := Some ''Location not found. Please try another search.'',
             isSearching := False \<rparr>
   \<and> requests (after_geocode c (Resolved True (Some [])) st) = requests st
   \<and> (\<exists>newLocation segment rest.
         after_geocode c (Resolved True (Some (result # results))) st
           = (handleLocationSelect c newLocation
                (st\<lparr> searchedLocation := Some newLocation \<rparr>))\<lparr> isSearching := False \<rparr>
         \<and> lat newLocation = c_lat result \<and> lng newLocation = c_lon result
         \<and> name newLocation = Some segment
         \<and> display_name result = segment @ rest
         \<and> CHR '','' \<notin> set segment
         \<and> (rest = [] \<or> hd rest = CHR '','')
         \<and> requests (after_geocode c (Resolved True (Some (result # results))) st)
             = requests (handleLocationSelect c newLocation st)
         \<and> locationKeyRef (after_geocode c (Resolved True (Some (result # results))) st)
             = locationKeyRef (handleLocationSelect c newLocation st)
         \<and> run [SearchSubmit query,
                 GeocodeSettles (length (searches st))
                   (Resolved True (Some (result # results)))] st
             = (run [SearchSubmit query, MapClick newLocation] st)
               \<lparr> searchedLocation := Some newLocation, isSearching := False,
                 searches := searches st \<rparr>)"
proof -
  define seg where "seg = takeWhile (\<lambda>ch. ch \<noteq> CHR '','') (display_name result)"
  define rest where "rest = dropWhile (\<lambda>ch. ch \<noteq> CHR '','') (display_name result)"
  define newLocation where "newLocation = \<lparr> lat = c_lat result, lng = c_lon result, name = Some seg \<rparr>"
  have 1: "after_geocode c (Resolved True (Some [])) s
      = s\<lparr> searchError := Some ''Location not found. Please try another search.'',
            isSearching := False \<rparr>" for c s
    by (simp add: after_geocode_def)
  have 2: "requests (after_geocode c (Resolved True (Some [])) st) = requests st"
    unfolding 1 by simp
  have 3: "after_geocode c (Resolved True (Some (result # results))) s
      = (handleLocationSelect c newLocation
           (s\<lparr> searchedLocation := Some newLocation \<rparr>))\<lparr> isSearching := False \<rparr>" for c s
    by (simp add: after_geocode_def Let_def newLocation_def seg_def)
  have 4: "display_name result = seg @ rest"
    by (simp add: seg_def rest_def)
  have 5: "CHR '','' \<notin> set seg"
    unfolding seg_def by (auto dest: set_takeWhileD)
  have 6: "rest = [] \<or> hd rest = CHR '',''"
    unfolding rest_def using hd_dropWhile [of "\<lambda>ch. ch \<noteq> CHR '',''" "display_name result"]
    by auto
  have 7: "requests (after_geocode c (Resolved True (Some (result # results))) st)
      = requests (handleLocationSelect c newLocation st)"
    unfolding 3 by (simp add: handleLocationSelect_def Let_def fetchWeatherData_def)
  have 8: "locationKeyRef (after_geocode c (Resolved True (Some (result # results))) st)
      = locationKeyRef (handleLocationSelect c newLocation st)"
    unfolding 3 by (simp add: handleLocationSelect_def Let_def fetchWeatherData_def)
  have 9: "lat newLocation = c_lat result" "lng newLocation = c_lon result"
    "name newLocation = Some seg"
    by (simp_all add: newLocation_def)
  have a: "requests (step (SearchSubmit query) st) = requests st @ [Nominatim query]"
    "isSearching (step (SearchSubmit query) st)"
    "searchError (step (SearchSubmit query) st) = None"
    by (simp_all add: handleSearch_def)
  have b: "run [SearchSubmit query,
           GeocodeSettles (length (searches st)) (Resolved True (Some []))] st
       = st\<lparr> isSearching := False,
             searchError := Some ''Location not found. Please try another search.'',
             requests := requests st @ [Nominatim query] \<rparr>"
    by (simp add: handleSearch_def 1)
  have b': "fetch_cycles (run [SearchSubmit query,
           GeocodeSettles (length (searches st)) (Resolved True (Some []))] st)
       = fetch_cycles st"
    unfolding b by (simp add: fetch_cycles_def)
  have m: "run [SearchSubmit query,
                 GeocodeSettles (length (searches st))
                   (Resolved True (Some (result # results)))] st
             = (run [SearchSubmit query, MapClick newLocation] st)
               \<lparr> searchedLocation := Some newLocation, isSearching := False,
                 searches := searches st \<rparr>"
    by (simp add: handleSearch_def 3 handleLocationSelect_def Let_def fetchWeatherData_def)
  from 3 [of c st] 4 5 6 7 8 9 m have "\<exists>newLocation segment rest.
         after_geocode c (Resolved True (Some (result # results))) st
           = (handleLocationSelect c newLocation
                (st\<lparr> searchedLocation := Some newLocation \<rparr>))\<lparr> isSearching := False \<rparr>
         \<and> lat newLocation = c_lat result \<and> lng newLocation = c_lon result
         \<and> name newLocation = Some segment
         \<and> display_name result = segment @ rest
         \<and> CHR '','' \<notin> set segment
         \<and> (rest = [] \<or> hd rest = CHR '','')
         \<and> requests (after_geocode c (Resolved True (Some (result # results))) st)
             = requests (handleLocationSelect c newLocation st)
         \<and> locationKeyRef (after_geocode c (Resolved True (Some (result # results))) st)
             = locationKeyRef (handleLocationSelect c newLocation st)
         \<and> run [SearchSubmit query,
                 GeocodeSettles (length (searches st))
                   (Resolved True (Some (result # results)))] st
             = (run [SearchSubmit query, MapClick newLocation] st)
               \<lparr> searchedLocation := Some newLocation, isSearching := False,
                 searches := searches st \<rparr>"
    by (intro exI [of _ newLocation] exI [of _ seg] exI [of _ rest]) simp
  with 1 [of c st] 2 a b b' show ?thesis
    by blast
qed

theorem search_selects_first_candidate_witness:
  "locationKeyRef init \<noteq> Some (locationKey paris)
   \<and> fetch_cycles (run [SearchSubmit ''Nowhere'',
        GeocodeSettles 0 (Resolved True (Some []))] init) = 0
   \<and> searchError (run [SearchSubmit ''Nowhere'',
        GeocodeSettles 0 (Resolved True (Some []))] init)
       = Some ''Location not found. Please try another search.''
   \<and> selectedLocation (run [SearchSubmit ''Paris'',
        GeocodeSettles 0 (Resolved True (Some [paris_found, london_found]))] init) = Some paris
   \<and> requests (run [SearchSubmit ''Paris'',
        GeocodeSettles 0 (Resolved True (Some [paris_found, london_found]))] init)
       = [Nominatim ''Paris'', CurrentWeather (lat paris) (lng paris)]
   \<and> locationKeyRef (run [SearchSubmit ''Paris'',
        GeocodeSettles 0 (Resolved True (Some [paris_found, london_found]))] init)
       = Some ''48.8566,2.3522''
   \<and> fetch_cycles (run [SearchSubmit ''Paris'',
        GeocodeSettles 0 (Resolved True (Some [paris_found, london_found])),
        MapClick paris_click] init) = 1"
proof -
  have z: "searches init = []" "length ([] :: bool list) = 0"
    by (simp_all add: init_def)
  obtain newLocation segment rest where
    g: "run [SearchSubmit ''Paris'',
          GeocodeSettles 0 (Resolved True (Some [paris_found, london_found]))] init
        = (run [SearchSubmit ''Paris'', MapClick newLocation] init)
          \<lparr> searchedLocation := Some newLocation, isSearching := False, searches := [] \<rparr>"
    and n: "lat newLocation = c_lat paris_found" "lng newLocation = c_lon paris_found"
      "name newLocation = Some segment"
    and d: "display_name paris_found = segment @ rest" "CHR '','' \<notin> set segment"
      "rest = [] \<or> hd rest = CHR '',''"
    using search_selects_first_candidate [where st = init and result = paris_found and results = "[london_found]"
        and query = "''Paris''"]
    unfolding z by blast
  have e: "run [SearchSubmit ''Nowhere'', GeocodeSettles 0 (Resolved True (Some []))] init
       = init\<lparr> isSearching := False,
             searchError := Some ''Location not found. Please try another search.'',
             requests := requests init @ [Nominatim ''Nowhere''] \<rparr>"
    using search_selects_first_candidate [where st = init and query = "''Nowhere''"]
    unfolding z by blast
  have "segment = ''Paris''"
  proof -
    have "takeWhile (\<lambda>ch. ch \<noteq> CHR '','') (display_name paris_found) = ''Paris''"
      by (simp add: paris_found_def)
    then have "takeWhile (\<lambda>ch. ch \<noteq> CHR '','') (segment @ rest) = ''Paris''"
      unfolding d(1) .
    moreover from d(2,3) have "takeWhile (\<lambda>ch. ch \<noteq> CHR '','') (segment @ rest) = segment"
      by (cases rest) (auto simp: takeWhile_append)
    ultimately show ?thesis by simp
  qed
  with n have p: "newLocation = paris"
    by (cases newLocation) (simp add: paris_found_def paris_def)
  have k: "locationKeyRef init \<noteq> Some (locationKey paris)"
    by (simp add: init_def)
  have c: "run [SearchSubmit ''Paris'',
        GeocodeSettles 0 (Resolved True (Some [paris_found, london_found])),
        MapClick paris_click] init
      = step (MapClick paris_click) (run [SearchSubmit ''Paris'',
        GeocodeSettles 0 (Resolved True (Some [paris_found, london_found]))] init)"
    by simp
  have 1: "fetch_cycles (run [SearchSubmit ''Nowhere'',
        GeocodeSettles 0 (Resolved True (Some []))] init) = 0"
    and 2: "searchError (run [SearchSubmit ''Nowhere'',
        GeocodeSettles 0 (Resolved True (Some []))] init)
       = Some ''Location not found. Please try another search.''"
    unfolding e by (simp_all add: init_def fetch_cycles_def)
  have 3: "selectedLocation (run [SearchSubmit ''Paris'',
        GeocodeSettles 0 (Resolved True (Some [paris_found, london_found]))] init) = Some paris"
    and 4: "requests (run [SearchSubmit ''Paris'',
        GeocodeSettles 0 (Resolved True (Some [paris_found, london_found]))] init)
       = [Nominatim ''Paris'', CurrentWeather (lat paris) (lng paris)]"
    and 5: "locationKeyRef (run [SearchSubmit ''Paris'',
        GeocodeSettles 0 (Resolved True (Some [paris_found, london_found]))] init)
       = Some ''48.8566,2.3522''"
    unfolding g p by (simp_all add: trace_eval handleSearch_def)
  have 6: "fetch_cycles (run [SearchSubmit ''Paris'',
        GeocodeSettles 0 (Resolved True (Some [paris_found, london_found])),
        MapClick paris_click] init) = 1"
    unfolding c g p by (simp add: trace_eval handleSearch_def)
  from k 1 2 3 4 5 6 show ?thesis
    by blast
qed

section \<open>One cycle at a time\<close>

text \<open>
  The guard makes \<^verbatim>\<open>fetchWeatherData\<close> a no-op when its closure sees \<^verbatim>\<open>loading\<close> true,
  every cycle ends with \<^verbatim>\<open>loading\<close> false, and as long as no suspended search is resumed
  at most one cycle is in flight.
\<close>

lemma resume_one_in_flight:
  assumes "resume location p r (st\<lparr> fetches := [] \<rparr>) = Some st'" and "loading st"
  shows "one_in_flight st'"
  using assms
  by (cases p; cases r)
     (auto simp: one_in_flight_def after_current_def after_forecast_def after_alerts_def
        fetch_failed_def fetch_done_def split: fetch_result.splits option.splits if_splits)

lemma start_one_in_flight:
  assumes "one_in_flight st" and "fetches st' = fetches st" and "loading st' = loading st"
  shows "one_in_flight ((fetchWeatherData (loading st) location st')\<lparr> dataFetchedRef := b \<rparr>)"
  using assms by (auto simp: one_in_flight_def fetchWeatherData_def)

lemma step_one_in_flight:
  assumes "\<not> search_settles e" and "one_in_flight st"
  shows "one_in_flight (step e st)"
proof (cases e)
  case (MapClick l)
  show ?thesis
  proof (cases "locationKeyRef st = Some (locationKey l)")
    case True
    from select_same_key [OF this] MapClick assms(2) show ?thesis
      by (simp add: one_in_flight_def)
  next
    case False
    from select_new_key [OF this] MapClick start_one_in_flight [OF assms(2)] show ?thesis
      by simp
  qed
next
  case (SearchSubmit q)
  with assms(2) show ?thesis
    by (simp add: handleSearch_def one_in_flight_def)
next
  case RefreshFired
  show ?thesis
  proof (cases "currentLocationRef st")
    case None
    with RefreshFired assms(2) show ?thesis
      by (simp add: handleRefresh_def)
  next
    case (Some current)
    with RefreshFired start_one_in_flight [OF assms(2)] show ?thesis
      by (simp add: handleRefresh_def)
  qed
next
  case (FetchSettles k r)
  show ?thesis
  proof (cases "k < length (fetches st)")
    case True
    with assms(2) obtain location p where c: "fetches st = [(location, p)]" and k: "k = 0"
      and l: "loading st"
      by (cases "fetches st") (auto simp: one_in_flight_def)
    show ?thesis
    proof (cases "resume location p r (st\<lparr> fetches := [] \<rparr>)")
      case None
      with c k FetchSettles assms(2) show ?thesis
        by (simp add: without_def)
    next
      case (Some st')
      from resume_one_in_flight [OF Some l] c k Some FetchSettles show ?thesis
        by (simp add: without_def)
    qed
  next
    case False
    with FetchSettles assms(2) show ?thesis by simp
  qed
next
  case (GeocodeSettles k r)
  with assms(1) show ?thesis by simp
qed

lemma one_in_flight_without_search:
  assumes "list_all (\<lambda>e. \<not> search_settles e) es" and "one_in_flight st"
  shows "one_in_flight (run es st)"
  using assms
proof (induction es arbitrary: st)
  case Nil
  then show ?case by simp
next
  case (Cons e es)
  from Cons.prems have "\<not> search_settles e" and r: "list_all (\<lambda>e. \<not> search_settles e) es"
    by simp_all
  from step_one_in_flight [OF this(1) Cons.prems(2)] Cons.IH [OF r] show ?case
    by simp
qed

lemma cycle_ends_idle:
  "(throws r1 \<longrightarrow> \<not> loading (after_current location r1 st))
   \<and> (throws r2 \<longrightarrow> \<not> loading (after_forecast location currentData r2 st))
   \<and> \<not> loading (after_alerts location currentData r3 now st)"
  by (cases r1; cases r2; cases r3)
     (simp_all add: after_current_def after_forecast_def after_alerts_def fetch_failed_def
        fetch_done_def split: option.splits)

lemma guard_no_op: "fetchWeatherData True location st = st"
  by (simp add: fetchWeatherData_def)

text \<open>
  C4. A search is submitted with nothing in flight; a map click starts a cycle for Paris;
  then the geocoder answers, and the continuation of the search calls the
  \<^verbatim>\<open>fetchWeatherData\<close> of the render in which the search was submitted, which still
  sees \<^verbatim>\<open>loading\<close> false: a second cycle starts while \<^verbatim>\<open>loading\<close> is true, and two
  cycles are in flight.
\<close>

theorem search_overlaps_fetch:
  "loading (run [SearchSubmit ''London'', MapClick paris] init)
   \<and> length (fetches (run [SearchSubmit ''London'', MapClick paris] init)) = 1
   \<and> fetch_cycles (run overlap init) = 2
   \<and> fetches (run overlap init)
       = [(paris, AwaitCurrent),
          (\<lparr> lat = c_lat london_found, lng = c_lon london_found, name = Some ''London'' \<rparr>,
           AwaitCurrent)]"
  by (simp add: overlap_def trace_eval handleSearch_def after_geocode_def key_found)
     (simp add: london_found_def)

end
